theory Spec2Isabelle
  imports Complex_Main
begin

chapter \<open>Dynamic Course Generator: assessment engine and generation pipeline\<close>

text \<open>
  The backend functions are embedded from the Python listings of
  \<^verbatim>\<open>DOCUMENTATION.md\<close> (quiz\_service.py, models.py), the user interface from the
  React components. Python floats and JavaScript numbers are modelled by \<open>real\<close>: the
  model covers finite numbers and exact arithmetic; every raise of the Python code is a
  value of \<open>py_error\<close>.
\<close>

section \<open>Data model (models.py)\<close>

datatype Difficulty = EASY | MEDIUM | HARD

datatype BloomLevel = REMEMBER | UNDERSTAND | APPLY | ANALYZE | EVALUATE | CREATE

datatype py_error = ValueError | ZeroDivisionError

record QuizQuestion =
  question_id :: string
  question :: string
  options :: "string list"
  correct_answer :: string
  difficulty :: Difficulty
  bloom_level :: BloomLevel
  explanation :: string

text \<open>Constants of quiz\_service.py.\<close>

definition PASS_THRESHOLD :: real where
  "PASS_THRESHOLD = 70"

definition MASTERY_THRESHOLD :: real where
  "MASTERY_THRESHOLD = 85"

definition STRUGGLING_THRESHOLD :: real where
  "STRUGGLING_THRESHOLD = 50"

section \<open>Difficulty and Bloom level adaptation (quiz\_service.py)\<close>

text \<open>Python's \<open>list.index\<close>: the first position of the element, \<open>None\<close> where
  Python raises ValueError.\<close>

fun index_of :: "'a list \<Rightarrow> 'a \<Rightarrow> nat option" where
  "index_of [] x = None"
| "index_of (y # ys) x = (if y = x then Some 0 else map_option Suc (index_of ys x))"

definition difficulty_order :: "Difficulty list" where
  "difficulty_order = [EASY, MEDIUM, HARD]"

definition calculate_new_difficulty :: "Difficulty \<Rightarrow> real \<Rightarrow> py_error + Difficulty" where
  "calculate_new_difficulty current_difficulty score =
     (case index_of difficulty_order current_difficulty of
        None \<Rightarrow> Inl ValueError
      | Some current_index \<Rightarrow>
          if score \<ge> 85 then
            (if current_index < 2 then Inr (difficulty_order ! (current_index + 1))
             else Inr current_difficulty)
          else if score < 50 then
            (if current_index > 0 then Inr (difficulty_order ! (current_index - 1))
             else Inr current_difficulty)
          else Inr current_difficulty)"

definition bloom_order :: "BloomLevel list" where
  "bloom_order = [REMEMBER, UNDERSTAND, APPLY, ANALYZE, EVALUATE, CREATE]"

text \<open>
  Modelled from the spec: the body of \<open>calculate_new_bloom_level\<close> (quiz\_service.py) is
  not among the sources, only its signature and docstring ("similar thresholds to
  difficulty adjustment") and the rule of section 10.4 of the documentation: score
  \<open>\<ge> 85\<close> moves up one level, score \<open>< 50\<close> moves down one level, otherwise the level
  stays. The spec applies the policy of the difficulty tiers to the six levels. The
  documented rule does not read the third parameter \<open>passed\<close>.
\<close>

definition calculate_new_bloom_level :: "BloomLevel \<Rightarrow> real \<Rightarrow> bool \<Rightarrow> py_error + BloomLevel" where
  "calculate_new_bloom_level current_bloom score passed =
     (case index_of bloom_order current_bloom of
        None \<Rightarrow> Inl ValueError
      | Some current_index \<Rightarrow>
          if score \<ge> 85 then
            (if current_index < 5 then Inr (bloom_order ! (current_index + 1))
             else Inr current_bloom)
          else if score < 50 then
            (if current_index > 0 then Inr (bloom_order ! (current_index - 1))
             else Inr current_bloom)
          else Inr current_bloom)"

text \<open>The position of a tier and of a level in its total order (models.py lists the
  enumerations in this order).\<close>

fun tier_rank :: "Difficulty \<Rightarrow> nat" where
  "tier_rank EASY = 0"
| "tier_rank MEDIUM = 1"
| "tier_rank HARD = 2"

fun level_rank :: "BloomLevel \<Rightarrow> nat" where
  "level_rank REMEMBER = 0"
| "level_rank UNDERSTAND = 1"
| "level_rank APPLY = 2"
| "level_rank ANALYZE = 3"
| "level_rank EVALUATE = 4"
| "level_rank CREATE = 5"

section \<open>Grading (quiz\_service.py, \<open>grade_quiz\<close>)\<close>

text \<open>An entry of the feedback list; the keys of the Python dict, prefixed where a
  field of \<open>QuizQuestion\<close> has the same name.\<close>

record QuestionFeedback =
  fb_question_id :: string
  user_answer :: string
  fb_correct_answer :: string
  is_correct :: bool
  fb_explanation :: string

text \<open>\<open>answers.get(key, default)\<close> on a Python dict.\<close>

definition dict_get :: "('k \<rightharpoonup> 'v) \<Rightarrow> 'k \<Rightarrow> 'v \<Rightarrow> 'v" where
  "dict_get d key dflt = (case d key of None \<Rightarrow> dflt | Some v \<Rightarrow> v)"

text \<open>The \<open>for question in questions\<close> loop, with its two accumulators.\<close>

fun grade_loop ::
  "(string \<rightharpoonup> string) \<Rightarrow> QuizQuestion list \<Rightarrow> nat \<Rightarrow> QuestionFeedback list
    \<Rightarrow> nat \<times> QuestionFeedback list" where
  "grade_loop answers [] correct_count feedback = (correct_count, feedback)"
| "grade_loop answers (q # rest) correct_count feedback =
     (let user_answer = dict_get answers (question_id q) '''';
          is_correct = (user_answer = correct_answer q)
      in grade_loop answers rest
           (if is_correct then correct_count + 1 else correct_count)
           (feedback @ [\<lparr>fb_question_id = question_id q,
                          user_answer = user_answer,
                          fb_correct_answer = correct_answer q,
                          is_correct = is_correct,
                          fb_explanation = explanation q\<rparr>]))"

text \<open>The division \<open>correct_count / len(questions)\<close> raises ZeroDivisionError on an
  empty question list.\<close>

definition grade_quiz ::
  "QuizQuestion list \<Rightarrow> (string \<rightharpoonup> string)
    \<Rightarrow> py_error + (real \<times> nat \<times> nat \<times> QuestionFeedback list)" where
  "grade_quiz questions answers =
     (case grade_loop answers questions 0 [] of
        (correct_count, feedback) \<Rightarrow>
          if length questions = 0 then Inl ZeroDivisionError
          else Inr ((real correct_count / real (length questions)) * 100,
                    correct_count, length questions, feedback))"

text \<open>
  Modelled from the spec: \<open>process_quiz_submission\<close>, which sets the \<open>passed\<close> field of
  the quiz result, is not among the sources; the spec has "passed iff score \<open>\<ge>\<close>
  PASS\_THRESHOLD", with the documented constant.
\<close>

definition quiz_passed :: "real \<Rightarrow> bool" where
  "quiz_passed score = (score \<ge> PASS_THRESHOLD)"

text \<open>The quiz of the spec's end-to-end scenario: one question, "2+2?".\<close>

definition scenario_question :: QuizQuestion where
  "scenario_question =
     \<lparr>question_id = ''q1'', question = ''2+2?'', options = [''3'', ''4'', ''5'', ''6''],
      correct_answer = ''4'', difficulty = EASY, bloom_level = REMEMBER,
      explanation = ''Basic arithmetic''\<rparr>"

section \<open>Mastery level (quiz\_service.py, \<open>calculate_mastery_level\<close>)\<close>

record MasteryLevel =
  level :: string
  color :: string

definition calculate_mastery_level :: "real \<Rightarrow> int \<Rightarrow> MasteryLevel" where
  "calculate_mastery_level best_score quiz_attempts =
     (if quiz_attempts = 0 then \<lparr>level = ''Not Started'', color = ''gray''\<rparr>
      else if best_score \<ge> 85 then \<lparr>level = ''Mastered'', color = ''emerald''\<rparr>
      else if best_score \<ge> 70 then \<lparr>level = ''Proficient'', color = ''blue''\<rparr>
      else if best_score \<ge> 50 then \<lparr>level = ''Developing'', color = ''amber''\<rparr>
      else \<lparr>level = ''Needs Practice'', color = ''rose''\<rparr>)"

subsection \<open>The consumers of the label (MasteryIndicator.jsx, ProgressPage)\<close>

record MasteryStyle =
  icon :: string
  bgColor :: string
  textColor :: string
  iconColor :: string
  borderColor :: string

text \<open>The object literal \<open>masteryConfig\<close>, as the list of its entries.\<close>

definition masteryConfig :: "(string \<times> MasteryStyle) list" where
  "masteryConfig =
     [(''Mastery'', \<lparr>icon = ''Trophy'', bgColor = ''bg-green-100'', textColor = ''text-green-700'',
         iconColor = ''text-green-500'', borderColor = ''border-green-200''\<rparr>),
      (''Proficient'', \<lparr>icon = ''TrendingUp'', bgColor = ''bg-blue-100'', textColor = ''text-blue-700'',
         iconColor = ''text-blue-500'', borderColor = ''border-blue-200''\<rparr>),
      (''Developing'', \<lparr>icon = ''Target'', bgColor = ''bg-yellow-100'', textColor = ''text-yellow-700'',
         iconColor = ''text-yellow-500'', borderColor = ''border-yellow-200''\<rparr>),
      (''Beginning'', \<lparr>icon = ''AlertCircle'', bgColor = ''bg-red-100'', textColor = ''text-red-700'',
         iconColor = ''text-red-500'', borderColor = ''border-red-200''\<rparr>),
      (''Not Started'', \<lparr>icon = ''Target'', bgColor = ''bg-gray-100'', textColor = ''text-gray-600'',
         iconColor = ''text-gray-400'', borderColor = ''border-gray-200''\<rparr>)]"

text \<open>\<open>masteryConfig[mastery?.level] || masteryConfig['Not Started']\<close>: the style the
  indicator renders with; \<open>None\<close> is an undefined \<open>mastery\<close>, and the result \<open>None\<close> an
  undefined \<open>config\<close>.\<close>

definition MasteryIndicator_config :: "MasteryLevel option \<Rightarrow> MasteryStyle option" where
  "MasteryIndicator_config mastery =
     (case (case mastery of None \<Rightarrow> None | Some m \<Rightarrow> map_of masteryConfig (level m)) of
        Some config \<Rightarrow> Some config
      | None \<Rightarrow> map_of masteryConfig ''Not Started'')"

text \<open>A counter of \<open>masteryCount\<close>: \<open>undefined++\<close> stores NaN.\<close>

datatype js_count = Count nat | CountNaN

definition masteryCount_init :: "(string \<times> js_count) list" where
  "masteryCount_init =
     [(''Mastery'', Count 0), (''Proficient'', Count 0), (''Developing'', Count 0),
      (''Beginning'', Count 0), (''Not Started'', Count 0)]"

text \<open>\<open>masteryCount[level]++\<close>: an own key is incremented in place, a new key is
  appended with the value NaN.\<close>

fun masteryCount_incr :: "(string \<times> js_count) list \<Rightarrow> string \<Rightarrow> (string \<times> js_count) list" where
  "masteryCount_incr [] lv = [(lv, CountNaN)]"
| "masteryCount_incr ((k, c) # rest) lv =
     (if k = lv then (k, (case c of Count n \<Rightarrow> Count (n + 1) | CountNaN \<Rightarrow> CountNaN)) # rest
      else (k, c) # masteryCount_incr rest lv)"

text \<open>The two nested \<open>forEach\<close> of ProgressPage over the lessons' \<open>mastery\<close> objects:
  \<open>l.mastery?.level || 'Not Started'\<close>, where the empty string is falsy.\<close>

fun masteryCount_of :: "(string \<times> js_count) list \<Rightarrow> MasteryLevel option list \<Rightarrow> (string \<times> js_count) list" where
  "masteryCount_of counts [] = counts"
| "masteryCount_of counts (m # ms) =
     masteryCount_of
       (masteryCount_incr counts
          (case m of None \<Rightarrow> ''Not Started''
           | Some x \<Rightarrow> if level x = '''' then ''Not Started'' else level x)) ms"

section \<open>The progress bar (ProgressBar.jsx)\<close>

text \<open>A JavaScript number that a division of finite numbers can produce.\<close>

datatype js_number = Num real | PosInfinity | NegInfinity | NaN

text \<open>\<open>a / b\<close> on finite numbers (a zero divisor is taken as \<open>+0\<close>).\<close>

definition js_div :: "real \<Rightarrow> real \<Rightarrow> js_number" where
  "js_div a b =
     (if b = 0 then (if a = 0 then NaN else if a > 0 then PosInfinity else NegInfinity)
      else Num (a / b))"

text \<open>\<open>x * k\<close> for a finite \<open>k > 0\<close>.\<close>

fun js_times :: "js_number \<Rightarrow> real \<Rightarrow> js_number" where
  "js_times (Num x) k = Num (x * k)"
| "js_times PosInfinity k = PosInfinity"
| "js_times NegInfinity k = NegInfinity"
| "js_times NaN k = NaN"

fun Math_max :: "js_number \<Rightarrow> js_number \<Rightarrow> js_number" where
  "Math_max NaN y = NaN"
| "Math_max x NaN = NaN"
| "Math_max PosInfinity y = PosInfinity"
| "Math_max x PosInfinity = PosInfinity"
| "Math_max NegInfinity y = y"
| "Math_max x NegInfinity = x"
| "Math_max (Num x) (Num y) = Num (max x y)"

fun Math_min :: "js_number \<Rightarrow> js_number \<Rightarrow> js_number" where
  "Math_min NaN y = NaN"
| "Math_min x NaN = NaN"
| "Math_min NegInfinity y = NegInfinity"
| "Math_min x NegInfinity = NegInfinity"
| "Math_min PosInfinity y = y"
| "Math_min x PosInfinity = x"
| "Math_min (Num x) (Num y) = Num (min x y)"

text \<open>The constant \<open>percentage\<close> of the component; the property \<open>max\<close> is optional and
  defaults to 100.\<close>

definition ProgressBar_percentage :: "real \<Rightarrow> real option \<Rightarrow> js_number" where
  "ProgressBar_percentage value max_prop =
     (let mx = (case max_prop of None \<Rightarrow> 100 | Some m \<Rightarrow> m)
      in Math_min (Num 100) (Math_max (Num 0) (js_times (js_div value mx) 100)))"

section \<open>Proficiency record (progress storage, section 6 of the documentation)\<close>

record AttemptEntry =
  attempt_number :: nat
  att_score :: real
  att_passed :: bool
  att_feedback :: "string option"
  timestamp :: string

record LessonProgress =
  lesson_id :: string
  completed :: bool
  quiz_attempts :: nat
  best_score :: real
  current_difficulty :: Difficulty
  current_bloom_level :: BloomLevel
  smoothed_score :: real
  attempt_history :: "AttemptEntry list"

text \<open>Exponential smoothing (section 11.2 of the documentation):
  \<open>new_score = \<alpha> * current_result + (1 - \<alpha>) * previous_score\<close> with \<open>\<alpha> = 0.3\<close>, on
  the 0-1 scale.\<close>

definition ALPHA :: real where
  "ALPHA = 0.3"

definition smooth :: "real \<Rightarrow> real \<Rightarrow> real" where
  "smooth current_result previous_score = ALPHA * current_result + (1 - ALPHA) * previous_score"

text \<open>
  Modelled from the spec: the function that updates the progress of a lesson after a
  graded attempt (inside \<open>process_quiz_submission\<close>) is not among the sources. The spec
  has, per attempt: append to the attempt history; best score = max of the previous best
  and the new score; smoothed score by the exponential moving average, initialised to
  the first raw score / 100 on the first attempt; tier and level transitions from the
  raw score. The record is created on the first attempt of a lesson.
\<close>

definition new_progress :: "string \<Rightarrow> Difficulty \<Rightarrow> BloomLevel \<Rightarrow> LessonProgress" where
  "new_progress lid d b =
     \<lparr>lesson_id = lid, completed = False, quiz_attempts = 0, best_score = 0,
      current_difficulty = d, current_bloom_level = b, smoothed_score = 0,
      attempt_history = []\<rparr>"

definition record_attempt ::
  "LessonProgress \<Rightarrow> real \<Rightarrow> string option \<Rightarrow> string \<Rightarrow> py_error + LessonProgress" where
  "record_attempt p score fb ts =
     (case calculate_new_difficulty (current_difficulty p) score of
        Inl e \<Rightarrow> Inl e
      | Inr d' \<Rightarrow>
          (case calculate_new_bloom_level (current_bloom_level p) score (quiz_passed score) of
             Inl e \<Rightarrow> Inl e
           | Inr b' \<Rightarrow>
               Inr (p\<lparr>quiz_attempts := quiz_attempts p + 1,
                      best_score := max (best_score p) score,
                      smoothed_score :=
                        (if quiz_attempts p = 0 then score / 100
                         else smooth (score / 100) (smoothed_score p)),
                      current_difficulty := d',
                      current_bloom_level := b',
                      attempt_history := attempt_history p @
                        [\<lparr>attempt_number = quiz_attempts p + 1, att_score = score,
                          att_passed = quiz_passed score, att_feedback = fb,
                          timestamp = ts\<rparr>]\<rparr>)))"

section \<open>Feedback tags\<close>

subsection \<open>FeedbackPanel\<close>

text \<open>An entry of \<open>feedbackOptions\<close> (the \<open>icon\<close>, an emoji, is left out).\<close>

record FeedbackOption =
  fo_type :: string
  fo_label :: string
  fo_description :: string

definition feedbackOptions :: "FeedbackOption list" where
  "feedbackOptions =
     [\<lparr>fo_type = ''too_easy'', fo_label = ''Too Easy'',
        fo_description = ''Content is not challenging enough''\<rparr>,
      \<lparr>fo_type = ''too_hard'', fo_label = ''Too Hard'',
        fo_description = ''Content is too difficult''\<rparr>,
      \<lparr>fo_type = ''unclear'', fo_label = ''Unclear'',
        fo_description = ''Explanations need improvement''\<rparr>,
      \<lparr>fo_type = ''more_examples'', fo_label = ''More Examples'',
        fo_description = ''Need additional examples''\<rparr>,
      \<lparr>fo_type = ''different_approach'', fo_label = ''Different Approach'',
        fo_description = ''Try a different teaching method''\<rparr>]"

subsection \<open>Acceptance of a submitted tag (\<open>POST /feedback\<close>)\<close>

text \<open>The body of the request, as the documentation of the endpoint (7.5) lists it and
  \<open>submitFeedback\<close> of api.js builds it (\<open>course_id\<close>, \<open>module_id\<close> and \<open>lesson_id\<close> carry
  the prefix \<open>fb\<close> here).\<close>

record FeedbackRequest =
  fb_course_id :: string
  fb_module_id :: string
  fb_lesson_id :: string
  feedback_type :: string
  additional_comments :: "string option"

text \<open>
  Modelled from the spec: the handler of \<open>POST /feedback\<close> and the \<open>FeedbackRequest\<close> model
  it reads are not among the sources; the documentation only names the model and lists
  the feedback types of the endpoint, and \<open>handleRegenerate\<close> and \<open>submitFeedback\<close>
  forward \<open>feedback_type\<close> as they receive it. The spec: the feedback-tag vocabulary is
  fixed and closed, the five reasons too-hard, too-easy, unclear, wants-more-examples,
  wants-different-approach; unrecognized tags must be rejected, not silently defaulted.
  A reason travels under the name that the documentation of the endpoint gives it; a
  tag is recognised if it is one of these names, character for character.
\<close>

datatype FeedbackTag = TooHard | TooEasy | Unclear | WantsMoreExamples | WantsDifferentApproach

definition feedback_vocabulary :: "(string \<times> FeedbackTag) list" where
  "feedback_vocabulary =
     [(''too_easy'', TooEasy), (''too_hard'', TooHard), (''unclear'', Unclear),
      (''more_examples'', WantsMoreExamples), (''different_approach'', WantsDifferentApproach)]"

datatype feedback_rejection = UnrecognizedTag string

definition accept_feedback :: "FeedbackRequest \<Rightarrow> feedback_rejection + FeedbackTag" where
  "accept_feedback req =
     (case map_of feedback_vocabulary (feedback_type req) of
        None \<Rightarrow> Inl (UnrecognizedTag (feedback_type req))
      | Some tag \<Rightarrow> Inr tag)"

section \<open>Retry orchestrator (llm\_service.py, \<open>call_llm_with_retry\<close>)\<close>

definition MAX_RETRIES :: nat where
  "MAX_RETRIES = 3"

datatype transport_failure = Timeout | AuthFailure | RateLimited | TransportError

text \<open>The outcome of the pipeline: a validated value, or exhaustion with the last raw
  response.\<close>

datatype 'v generation_result = Validated 'v | GenerationExhausted "string option"

text \<open>
  Modelled from the spec: the body of \<open>call_llm_with_retry\<close> is not among the sources,
  only its docstring (MAX\_RETRIES attempts, JSON validation on each attempt). The
  spec's algorithm: for attempt 1..maxAttempts call the generation client; on a
  transport failure go on to the next attempt; on success feed the response through the
  text repair unit, then the schema validator, and return at once if both succeed; after
  the last attempt return the exhaustion failure with the last raw response.

  The generation client is a function of the attempt number (the generator may answer
  the same prompt differently on every call); the repair unit and the validator are
  parameters. The second component of the result lists the attempt numbers of the
  client calls issued, in order: they are all the effects of a run.
\<close>

fun attempt_loop ::
  "(nat \<Rightarrow> string \<Rightarrow> transport_failure + string) \<Rightarrow> (string \<Rightarrow> 'j option) \<Rightarrow> ('j \<Rightarrow> 'e + 'v)
    \<Rightarrow> string \<Rightarrow> nat \<Rightarrow> nat \<Rightarrow> string option \<Rightarrow> nat list \<Rightarrow> 'v generation_result \<times> nat list" where
  "attempt_loop client repair validate prompt 0 attempt last_raw calls =
     (GenerationExhausted last_raw, calls)"
| "attempt_loop client repair validate prompt (Suc remaining) attempt last_raw calls =
     (case client attempt prompt of
        Inl failure \<Rightarrow>
          attempt_loop client repair validate prompt remaining (attempt + 1) last_raw
            (calls @ [attempt])
      | Inr raw \<Rightarrow>
          (case repair raw of
             None \<Rightarrow>
               attempt_loop client repair validate prompt remaining (attempt + 1) (Some raw)
                 (calls @ [attempt])
           | Some decoded \<Rightarrow>
               (case validate decoded of
                  Inl invalid \<Rightarrow>
                    attempt_loop client repair validate prompt remaining (attempt + 1) (Some raw)
                      (calls @ [attempt])
                | Inr v \<Rightarrow> (Validated v, calls @ [attempt]))))"

definition generateValidated ::
  "(nat \<Rightarrow> string \<Rightarrow> transport_failure + string) \<Rightarrow> (string \<Rightarrow> 'j option) \<Rightarrow> ('j \<Rightarrow> 'e + 'v)
    \<Rightarrow> string \<Rightarrow> nat \<Rightarrow> 'v generation_result \<times> nat list" where
  "generateValidated client repair validate prompt maxAttempts =
     attempt_loop client repair validate prompt maxAttempts 1 None []"

text \<open>What one attempt yields on its own: the validated value of the \<open>k\<close>-th call, if
  the call, the repair and the validation all succeed.\<close>

definition attempt_value ::
  "(nat \<Rightarrow> string \<Rightarrow> transport_failure + string) \<Rightarrow> (string \<Rightarrow> 'j option) \<Rightarrow> ('j \<Rightarrow> 'e + 'v)
    \<Rightarrow> string \<Rightarrow> nat \<Rightarrow> 'v option" where
  "attempt_value client repair validate prompt k =
     (case client k prompt of
        Inl failure \<Rightarrow> None
      | Inr raw \<Rightarrow>
          (case repair raw of
             None \<Rightarrow> None
           | Some decoded \<Rightarrow> (case validate decoded of Inl invalid \<Rightarrow> None | Inr v \<Rightarrow> Some v)))"

section \<open>JSON values\<close>

text \<open>
  A decoded JSON value, as Python's \<open>json\<close> module returns it (a number is an integer
  here; an object is the list of its members in order).
\<close>

datatype json =
  JNull | JBool bool | JNum int | JStr string | JArr "json list" | JObj "(string \<times> json) list"

section \<open>Schema Validator\<close>

text \<open>
  Modelled from the spec: the validator of quiz questions (inside
  \<open>validate_and_build_course\<close> and the quiz generation of llm\_service.py) is not among
  the sources. The spec's checks on a candidate quiz question: the required fields are
  present (the identifier may be absent: the content builder assigns one); difficulty
  and cognitive level are members of their enumerations, coerced case-insensitively;
  the options are exactly four distinct strings; the correct option is one of them,
  and if not, the question is rejected, never corrected.
\<close>

datatype validation_failure =
  NotAnObject | MissingField string | WrongType string | UnknownValue string
  | NotFourOptions | DuplicateOptions | CorrectNotInOptions

fun obj_get :: "json \<Rightarrow> string \<Rightarrow> json option" where
  "obj_get (JObj ms) k = map_of ms k"
| "obj_get v k = None"

definition get_string :: "json \<Rightarrow> string \<Rightarrow> validation_failure + string" where
  "get_string q k =
     (case obj_get q k of
        None \<Rightarrow> Inl (MissingField k)
      | Some (JStr s) \<Rightarrow> Inr s
      | Some other \<Rightarrow> Inl (WrongType k))"

fun json_strings :: "json list \<Rightarrow> string list option" where
  "json_strings [] = Some []"
| "json_strings (JStr s # xs) = map_option ((#) s) (json_strings xs)"
| "json_strings (x # xs) = None"

definition get_options :: "json \<Rightarrow> validation_failure + string list" where
  "get_options q =
     (case obj_get q ''options'' of
        None \<Rightarrow> Inl (MissingField ''options'')
      | Some (JArr xs) \<Rightarrow>
          (case json_strings xs of
             None \<Rightarrow> Inl (WrongType ''options'')
           | Some os \<Rightarrow> Inr os)
      | Some other \<Rightarrow> Inl (WrongType ''options''))"

definition to_lower :: "char \<Rightarrow> char" where
  "to_lower c =
     (case map_of (zip ''ABCDEFGHIJKLMNOPQRSTUVWXYZ'' ''abcdefghijklmnopqrstuvwxyz'') c of
        None \<Rightarrow> c
      | Some l \<Rightarrow> l)"

definition coerce_difficulty :: "string \<Rightarrow> Difficulty option" where
  "coerce_difficulty s =
     map_of [(''easy'', EASY), (''medium'', MEDIUM), (''hard'', HARD)] (map to_lower s)"

definition coerce_bloom_level :: "string \<Rightarrow> BloomLevel option" where
  "coerce_bloom_level s =
     map_of [(''remember'', REMEMBER), (''understand'', UNDERSTAND), (''apply'', APPLY),
             (''analyze'', ANALYZE), (''evaluate'', EVALUATE), (''create'', CREATE)]
       (map to_lower s)"

text \<open>Sequencing of checks: the first failure is the result.\<close>

definition and_then :: "'e + 'a \<Rightarrow> ('a \<Rightarrow> 'e + 'b) \<Rightarrow> 'e + 'b" where
  "and_then r f = (case r of Inl e \<Rightarrow> Inl e | Inr x \<Rightarrow> f x)"

definition check_options :: "string list \<Rightarrow> string \<Rightarrow> validation_failure + unit" where
  "check_options os correct =
     (if length os \<noteq> 4 then Inl NotFourOptions
      else if \<not> distinct os then Inl DuplicateOptions
      else if correct \<notin> set os then Inl CorrectNotInOptions
      else Inr ())"

definition validate_question :: "json \<Rightarrow> validation_failure + QuizQuestion" where
  "validate_question q =
     (case q of
        JObj ms \<Rightarrow>
          and_then (get_string q ''question'') (\<lambda>text.
          and_then (get_options q) (\<lambda>os.
          and_then (get_string q ''correct_answer'') (\<lambda>correct.
          and_then (get_string q ''difficulty'') (\<lambda>d.
          and_then (get_string q ''bloom_level'') (\<lambda>b.
          and_then (get_string q ''explanation'') (\<lambda>expl.
          and_then (check_options os correct) (\<lambda>u.
            (case coerce_difficulty d of
               None \<Rightarrow> Inl (UnknownValue ''difficulty'')
             | Some d' \<Rightarrow>
                 (case coerce_bloom_level b of
                    None \<Rightarrow> Inl (UnknownValue ''bloom_level'')
                  | Some b' \<Rightarrow>
                      Inr \<lparr>question_id =
                             (case obj_get q ''question_id'' of Some (JStr i) \<Rightarrow> i | other \<Rightarrow> []),
                           question = text, options = os, correct_answer = correct,
                           difficulty = d', bloom_level = b', explanation = expl\<rparr>)))))))))
      | other \<Rightarrow> Inl NotAnObject)"

chapter \<open>Theorems\<close>

subsection \<open>Difficulty and level transitions\<close>

lemma calculate_new_difficulty_cases:
  "calculate_new_difficulty d s =
     Inr (if 85 \<le> s then (case d of EASY \<Rightarrow> MEDIUM | MEDIUM \<Rightarrow> HARD | HARD \<Rightarrow> HARD)
          else if s < 50 then (case d of EASY \<Rightarrow> EASY | MEDIUM \<Rightarrow> EASY | HARD \<Rightarrow> MEDIUM)
          else d)"
  by (cases d) (simp_all add: calculate_new_difficulty_def difficulty_order_def)

lemma calculate_new_bloom_level_cases:
  "calculate_new_bloom_level c s p =
     Inr (if 85 \<le> s then
            (case c of REMEMBER \<Rightarrow> UNDERSTAND | UNDERSTAND \<Rightarrow> APPLY | APPLY \<Rightarrow> ANALYZE
             | ANALYZE \<Rightarrow> EVALUATE | EVALUATE \<Rightarrow> CREATE | CREATE \<Rightarrow> CREATE)
          else if s < 50 then
            (case c of REMEMBER \<Rightarrow> REMEMBER | UNDERSTAND \<Rightarrow> REMEMBER | APPLY \<Rightarrow> UNDERSTAND
             | ANALYZE \<Rightarrow> APPLY | EVALUATE \<Rightarrow> ANALYZE | CREATE \<Rightarrow> EVALUATE)
          else c)"
  by (cases c) (simp_all add: calculate_new_bloom_level_def bloom_order_def)

lemma tier_rank_inj: "tier_rank a = tier_rank b \<Longrightarrow> a = b"
  by (cases a; cases b) simp_all

lemma level_rank_inj: "level_rank a = level_rank b \<Longrightarrow> a = b"
  by (cases a; cases b) simp_all

text \<open>
  C1. For every score \<open>s\<close>, tier \<open>d\<close> and level \<open>c\<close> both transitions return a value (they
  never raise), and the rank of the new tier (of the new level, independently) is the
  old rank plus one when \<open>s \<ge> 85\<close>, capped at the top rank 2 (5); the old rank minus one
  when \<open>s < 50\<close>, stopping at the bottom rank 0; and the old rank otherwise. So 85 itself
  advances, 50 itself does not regress, and no transition moves by more than one rank.
\<close>

theorem tier_and_level_single_step:
  "(\<exists>d'. calculate_new_difficulty d s = Inr d' \<and>
      tier_rank d' = (if 85 \<le> s then min 2 (tier_rank d + 1)
                      else if s < 50 then tier_rank d - 1 else tier_rank d)) \<and>
   (\<exists>c'. calculate_new_bloom_level c s p = Inr c' \<and>
      level_rank c' = (if 85 \<le> s then min 5 (level_rank c + 1)
                       else if s < 50 then level_rank c - 1 else level_rank c))"
proof
  show "\<exists>d'. calculate_new_difficulty d s = Inr d' \<and>
      tier_rank d' = (if 85 \<le> s then min 2 (tier_rank d + 1)
                      else if s < 50 then tier_rank d - 1 else tier_rank d)"
    unfolding calculate_new_difficulty_cases by (cases d) simp_all
next
  show "\<exists>c'. calculate_new_bloom_level c s p = Inr c' \<and>
      level_rank c' = (if 85 \<le> s then min 5 (level_rank c + 1)
                       else if s < 50 then level_rank c - 1 else level_rank c)"
    unfolding calculate_new_bloom_level_cases by (cases c) simp_all
qed

text \<open>The boundary scores, on a tier and a level in the middle of their orders.\<close>

theorem tier_and_level_single_step_witness:
  "calculate_new_difficulty MEDIUM 85 = Inr HARD \<and>
   calculate_new_difficulty MEDIUM 50 = Inr MEDIUM \<and>
   calculate_new_bloom_level UNDERSTAND 85 True = Inr APPLY \<and>
   calculate_new_bloom_level UNDERSTAND 50 False = Inr UNDERSTAND"
proof -
  have a: "calculate_new_difficulty MEDIUM 85 = Inr HARD"
    using tier_and_level_single_step [of MEDIUM 85 UNDERSTAND True]
    by (auto elim!: tier_rank.elims)
  have b: "calculate_new_difficulty MEDIUM 50 = Inr MEDIUM"
    using tier_and_level_single_step [of MEDIUM 50 UNDERSTAND False]
    by (auto elim!: tier_rank.elims)
  have c: "calculate_new_bloom_level UNDERSTAND 85 True = Inr APPLY"
    using tier_and_level_single_step [of MEDIUM 85 UNDERSTAND True]
    by (auto elim!: level_rank.elims)
  have d: "calculate_new_bloom_level UNDERSTAND 50 False = Inr UNDERSTAND"
    using tier_and_level_single_step [of MEDIUM 50 UNDERSTAND False]
    by (auto elim!: level_rank.elims)
  from a b c d show ?thesis by simp
qed

subsection \<open>Grading\<close>

lemma grade_loop_eq:
  "grade_loop answers qs c fb =
     (c + length (filter (\<lambda>q. dict_get answers (question_id q) '''' = correct_answer q) qs),
      fb @ map (\<lambda>q. \<lparr>fb_question_id = question_id q,
                       user_answer = dict_get answers (question_id q) '''',
                       fb_correct_answer = correct_answer q,
                       is_correct = (dict_get answers (question_id q) '''' = correct_answer q),
                       fb_explanation = explanation q\<rparr>) qs)"
  by (induction qs arbitrary: c fb) (simp_all add: Let_def)

lemma grade_loop_cong:
  assumes "\<forall>q \<in> set qs. answers' (question_id q) = answers (question_id q)"
  shows "grade_loop answers' qs c fb = grade_loop answers qs c fb"
proof -
  have same: "dict_get answers' (question_id q) [] = dict_get answers (question_id q) []"
    if "q \<in> set qs" for q
    using assms that by (simp add: dict_get_def)
  have "filter (\<lambda>q. dict_get answers' (question_id q) [] = correct_answer q) qs =
        filter (\<lambda>q. dict_get answers (question_id q) [] = correct_answer q) qs"
    by (rule filter_cong) (simp_all add: same)
  moreover have
    "map (\<lambda>q. \<lparr>fb_question_id = question_id q,
                 user_answer = dict_get answers' (question_id q) [],
                 fb_correct_answer = correct_answer q,
                 is_correct = (dict_get answers' (question_id q) [] = correct_answer q),
                 fb_explanation = explanation q\<rparr>) qs =
     map (\<lambda>q. \<lparr>fb_question_id = question_id q,
                 user_answer = dict_get answers (question_id q) [],
                 fb_correct_answer = correct_answer q,
                 is_correct = (dict_get answers (question_id q) [] = correct_answer q),
                 fb_explanation = explanation q\<rparr>) qs"
    by (rule map_cong) (simp_all add: same)
  ultimately show ?thesis
    unfolding grade_loop_eq by simp
qed

lemma all_correct_count:
  assumes "\<forall>q \<in> set qs. answers (question_id q) = Some (correct_answer q)"
  shows "length (filter (\<lambda>q. dict_get answers (question_id q) '''' = correct_answer q) qs) = length qs"
proof -
  have "filter (\<lambda>q. dict_get answers (question_id q) '''' = correct_answer q) qs = qs"
    using assms by (intro filter_True) (simp add: dict_get_def)
  then show ?thesis by simp
qed

text \<open>
  C2. Grading a non-empty question list returns a result in which question \<open>i\<close> is marked
  correct iff the submitted string, \<open>answers.get(question_id, "")\<close>, is equal to the
  question's \<open>correct_answer\<close> (string equality: no normalisation, no partial credit),
  \<open>correct_count\<close> counts these questions, the score is \<open>100 * correct_count / total\<close>, the
  attempt is passed iff the score is at least 70, and a submission that holds the exact
  correct option of every question scores 100 and passes.
\<close>

theorem grade_quiz_exact_match:
  assumes "questions \<noteq> []"
  shows "\<exists>score correct_count total feedback.
     grade_quiz questions answers = Inr (score, correct_count, total, feedback) \<and>
     map is_correct feedback =
       map (\<lambda>q. dict_get answers (question_id q) '''' = correct_answer q) questions \<and>
     correct_count =
       length (filter (\<lambda>q. dict_get answers (question_id q) '''' = correct_answer q) questions) \<and>
     total = length questions \<and>
     score = 100 * real correct_count / real total \<and>
     (quiz_passed score \<longleftrightarrow> score \<ge> 70) \<and>
     ((\<forall>q \<in> set questions. answers (question_id q) = Some (correct_answer q))
        \<longrightarrow> score = 100 \<and> quiz_passed score)"
proof -
  let ?ok = "\<lambda>q. dict_get answers (question_id q) '''' = correct_answer q"
  let ?n = "length (filter ?ok questions)"
  obtain fb where loop: "grade_loop answers questions 0 [] = (?n, fb)"
    and flags: "map is_correct fb = map ?ok questions"
    by (simp add: grade_loop_eq comp_def)
  have res: "grade_quiz questions answers =
      Inr (100 * real ?n / real (length questions), ?n, length questions, fb)"
    using assms by (simp add: grade_quiz_def loop)
  have all: "100 * real ?n / real (length questions) = 100"
    if "\<forall>q \<in> set questions. answers (question_id q) = Some (correct_answer q)"
    using assms all_correct_count [OF that] by simp
  show ?thesis
    using res flags all by (auto simp: quiz_passed_def PASS_THRESHOLD_def)
qed

text \<open>Three copies of the scenario question under different identifiers: the first is
  answered exactly, the second with a blank appended, the third is not answered.\<close>

theorem grade_quiz_exact_match_witness:
  "[scenario_question, scenario_question\<lparr>question_id := ''q2''\<rparr>,
      scenario_question\<lparr>question_id := ''q3''\<rparr>] \<noteq> [] \<and>
   (\<exists>fb. grade_quiz
      [scenario_question, scenario_question\<lparr>question_id := ''q2''\<rparr>,
       scenario_question\<lparr>question_id := ''q3''\<rparr>]
      [''q1'' \<mapsto> ''4'', ''q2'' \<mapsto> ''4 ''] = Inr (100 / 3, 1, 3, fb) \<and>
      map is_correct fb = [True, False, False]) \<and>
   \<not> quiz_passed (100 / 3)"
proof -
  let ?qs = "[scenario_question, scenario_question\<lparr>question_id := ''q2''\<rparr>,
      scenario_question\<lparr>question_id := ''q3''\<rparr>]"
  have ne: "?qs \<noteq> []" by simp
  show ?thesis
    using grade_quiz_exact_match [OF ne, of "[''q1'' \<mapsto> ''4'', ''q2'' \<mapsto> ''4 '']"]
    by (auto simp: scenario_question_def dict_get_def quiz_passed_def PASS_THRESHOLD_def)
qed

text \<open>A submission that references the unknown identifier \<open>zz\<close> is graded, with full
  marks.\<close>

theorem grade_quiz_unknown_id_counterexample:
  "''zz'' \<in> dom [''q1'' \<mapsto> ''4'', ''zz'' \<mapsto> ''5''] \<and>
   ''zz'' \<notin> question_id ` set [scenario_question] \<and>
   grade_quiz [scenario_question] [''q1'' \<mapsto> ''4'', ''zz'' \<mapsto> ''5''] =
     Inr (100, 1, 1,
          [\<lparr>fb_question_id = ''q1'', user_answer = ''4'', fb_correct_answer = ''4'',
            is_correct = True, fb_explanation = ''Basic arithmetic''\<rparr>])"
  by (simp add: grade_quiz_def scenario_question_def dict_get_def Let_def)

text \<open>
  C9, as the code has it. \<open>grade_quiz\<close> has no rejection for unknown identifiers: an answer under
  an identifier \<open>k\<close> that no question of the quiz has is ignored, so the submission is
  graded exactly as without it, and for a non-empty quiz the result is a score, never an
  error.
\<close>

theorem grade_quiz_ignores_unknown_ids:
  assumes "k \<notin> question_id ` set questions"
  shows "grade_quiz questions (answers(k \<mapsto> a)) = grade_quiz questions answers \<and>
         (questions \<noteq> [] \<longrightarrow> (\<exists>r. grade_quiz questions (answers(k \<mapsto> a)) = Inr r))"
proof -
  have "\<forall>q \<in> set questions. (answers(k \<mapsto> a)) (question_id q) = answers (question_id q)"
    using assms by auto
  then have "grade_loop (answers(k \<mapsto> a)) questions 0 [] = grade_loop answers questions 0 []"
    by (rule grade_loop_cong)
  then show ?thesis
    by (auto simp: grade_quiz_def split: prod.splits)
qed

theorem grade_quiz_ignores_unknown_ids_witness:
  "''zz'' \<notin> question_id ` set [scenario_question] \<and> [scenario_question] \<noteq> [] \<and>
   grade_quiz [scenario_question] [''q1'' \<mapsto> ''3'', ''zz'' \<mapsto> ''4''] =
     grade_quiz [scenario_question] [''q1'' \<mapsto> ''3''] \<and>
   (\<exists>r. grade_quiz [scenario_question] [''q1'' \<mapsto> ''3'', ''zz'' \<mapsto> ''4''] = Inr r)"
proof -
  have k: "''zz'' \<notin> question_id ` set [scenario_question]"
    by (simp add: scenario_question_def)
  have ne: "[scenario_question] \<noteq> []" by simp
  show ?thesis
    using k ne grade_quiz_ignores_unknown_ids [OF k, of "[''q1'' \<mapsto> ''3'']" "''4''"]
    by blast
qed

subsection \<open>The progress bar\<close>

text \<open>
  C10. For every finite \<open>value\<close> and every positive \<open>max\<close> the fill percentage is the
  number \<open>min 100 (max 0 (value / max * 100))\<close>: it lies in \<open>[0, 100]\<close>, is 0 for a
  negative value and 100 for a value above \<open>max\<close>; without \<open>max\<close> the component computes
  with 100.
\<close>

theorem ProgressBar_percentage_clamped:
  assumes "0 < mx"
  shows "\<exists>p. ProgressBar_percentage value (Some mx) = Num p \<and>
     p = min 100 (max 0 ((value / mx) * 100)) \<and> 0 \<le> p \<and> p \<le> 100 \<and>
     (value \<le> 0 \<longrightarrow> p = 0) \<and> (mx \<le> value \<longrightarrow> p = 100) \<and>
     ProgressBar_percentage value None = ProgressBar_percentage value (Some 100)"
proof -
  have eq: "ProgressBar_percentage value (Some mx) = Num (min 100 (max 0 ((value / mx) * 100)))"
    using assms by (simp add: ProgressBar_percentage_def js_div_def)
  have neg: "min 100 (max 0 ((value / mx) * 100)) = 0" if "value \<le> 0"
  proof -
    from that assms have "value * 100 / mx \<le> 0" by (simp add: divide_le_0_iff)
    then show ?thesis by simp
  qed
  have top: "min 100 (max 0 ((value / mx) * 100)) = 100" if "mx \<le> value"
  proof -
    from that assms have "100 \<le> value * 100 / mx" by (simp add: le_divide_eq)
    then show ?thesis by simp
  qed
  show ?thesis
    using eq neg top by (simp add: ProgressBar_percentage_def)
qed

theorem ProgressBar_percentage_clamped_witness:
  "(0::real) < 8 \<and> ProgressBar_percentage (-3) (Some 8) = Num 0 \<and>
   ProgressBar_percentage 2 (Some 8) = Num 25 \<and>
   ProgressBar_percentage 20 (Some 8) = Num 100"
proof -
  have h: "(0::real) < 8" by simp
  show ?thesis
    using ProgressBar_percentage_clamped [OF h, of "-3"]
      ProgressBar_percentage_clamped [OF h, of 2]
      ProgressBar_percentage_clamped [OF h, of 20]
    by auto
qed

subsection \<open>Mastery classification\<close>

lemma calculate_mastery_level_thresholds:
  "level (calculate_mastery_level best attempts) =
     (if attempts = 0 then ''Not Started''
      else if 85 \<le> best then ''Mastered''
      else if 70 \<le> best then ''Proficient''
      else if 50 \<le> best then ''Developing''
      else ''Needs Practice'')"
  by (simp add: calculate_mastery_level_def)

lemma masteryConfig_keys:
  "map fst masteryConfig = [''Mastery'', ''Proficient'', ''Developing'', ''Beginning'', ''Not Started'']"
  by (simp add: masteryConfig_def)

text \<open>
  C4. The classification has the documented thresholds
  (\<open>calculate_mastery_level_thresholds\<close>), but two of its five labels are not keys of the
  user interface: a lesson with one attempt and best score 90 is labelled \<open>Mastered\<close>,
  for which \<open>masteryConfig\<close> has no entry (its key is \<open>Mastery\<close>), so the indicator renders
  it with the style of \<open>Not Started\<close> and the progress page counts it under a new key
  with the value NaN; likewise \<open>Needs Practice\<close> (best score 40) against the key
  \<open>Beginning\<close>.
\<close>

theorem mastery_labels_unknown_to_ui:
  "level (calculate_mastery_level 90 1) = ''Mastered'' \<and>
   map_of masteryConfig ''Mastered'' = None \<and>
   MasteryIndicator_config (Some (calculate_mastery_level 90 1)) = MasteryIndicator_config None \<and>
   masteryCount_of masteryCount_init [Some (calculate_mastery_level 90 1)] =
     masteryCount_init @ [(''Mastered'', CountNaN)] \<and>
   level (calculate_mastery_level 40 1) = ''Needs Practice'' \<and>
   map_of masteryConfig ''Needs Practice'' = None \<and>
   MasteryIndicator_config (Some (calculate_mastery_level 40 1)) = MasteryIndicator_config None \<and>
   masteryCount_of masteryCount_init [Some (calculate_mastery_level 40 1)] =
     masteryCount_init @ [(''Needs Practice'', CountNaN)]"
  by (simp add: calculate_mastery_level_def masteryConfig_def MasteryIndicator_config_def
      masteryCount_init_def)

subsection \<open>Smoothed score\<close>

lemma record_attempt_returns:
  "\<exists>d' b'. calculate_new_difficulty (current_difficulty p) r = Inr d' \<and>
     calculate_new_bloom_level (current_bloom_level p) r (quiz_passed r) = Inr b' \<and>
     record_attempt p r fb ts =
       Inr (p\<lparr>quiz_attempts := quiz_attempts p + 1,
              best_score := max (best_score p) r,
              smoothed_score :=
                (if quiz_attempts p = 0 then r / 100 else smooth (r / 100) (smoothed_score p)),
              current_difficulty := d',
              current_bloom_level := b',
              attempt_history := attempt_history p @
                [\<lparr>attempt_number = quiz_attempts p + 1, att_score = r,
                  att_passed = quiz_passed r, att_feedback = fb, timestamp = ts\<rparr>]\<rparr>)"
  unfolding record_attempt_def calculate_new_difficulty_cases calculate_new_bloom_level_cases
  by simp

text \<open>
  C3. Recording an attempt with raw score \<open>r\<close> always succeeds. On a record without
  attempts the new smoothed score is \<open>r / 100\<close>; on a record with attempts it is
  \<open>0.3 * (r / 100) + 0.7 *\<close> the previous smoothed score.
\<close>

theorem smoothed_score_update:
  "\<exists>p'. record_attempt p r fb ts = Inr p' \<and>
     quiz_attempts p' = quiz_attempts p + 1 \<and>
     (quiz_attempts p = 0 \<longrightarrow> smoothed_score p' = r / 100) \<and>
     (quiz_attempts p > 0 \<longrightarrow> smoothed_score p' = 0.3 * (r / 100) + 0.7 * smoothed_score p)"
proof -
  obtain p' where p': "record_attempt p r fb ts = Inr p'"
    and n: "quiz_attempts p' = quiz_attempts p + 1"
    and s: "smoothed_score p' =
      (if quiz_attempts p = 0 then r / 100 else smooth (r / 100) (smoothed_score p))"
    using record_attempt_returns [of p r fb ts] by auto
  have "smooth (r / 100) (smoothed_score p) = 0.3 * (r / 100) + 0.7 * smoothed_score p"
    by (simp add: smooth_def ALPHA_def)
  with p' n s show ?thesis by simp
qed

text \<open>The scenario of the spec: a learner at medium / Understand scores 90, then 40.\<close>

lemma scenario_first_attempt:
  "record_attempt (new_progress ''l1'' MEDIUM UNDERSTAND) 90 None ''t1'' =
     Inr \<lparr>lesson_id = ''l1'', completed = False, quiz_attempts = 1, best_score = 90,
          current_difficulty = HARD, current_bloom_level = APPLY, smoothed_score = 0.9,
          attempt_history =
            [\<lparr>attempt_number = 1, att_score = 90, att_passed = True, att_feedback = None,
              timestamp = ''t1''\<rparr>]\<rparr>"
  unfolding record_attempt_def calculate_new_difficulty_cases calculate_new_bloom_level_cases
  by (simp add: new_progress_def quiz_passed_def PASS_THRESHOLD_def)

theorem smoothed_score_update_witness:
  "(\<exists>p1 p2. record_attempt (new_progress ''l1'' MEDIUM UNDERSTAND) 90 None ''t1'' = Inr p1 \<and>
      smoothed_score p1 = 0.9 \<and> best_score p1 = 90 \<and>
      current_difficulty p1 = HARD \<and> current_bloom_level p1 = APPLY \<and>
      record_attempt p1 40 None ''t2'' = Inr p2 \<and>
      smoothed_score p2 = 0.75 \<and> best_score p2 = 90 \<and>
      current_difficulty p2 = MEDIUM \<and> current_bloom_level p2 = UNDERSTAND)"
proof -
  let ?p0 = "new_progress ''l1'' MEDIUM UNDERSTAND"
  have z: "quiz_attempts ?p0 = 0" by (simp add: new_progress_def)
  obtain p1 where p1: "record_attempt ?p0 90 None ''t1'' = Inr p1"
    and v1: "smoothed_score p1 = 0.9"
    using smoothed_score_update [of ?p0 90 None "''t1''"] z by auto
  have f1: "best_score p1 = 90" "current_difficulty p1 = HARD" "current_bloom_level p1 = APPLY"
    "quiz_attempts p1 = 1"
    using p1 unfolding scenario_first_attempt by auto
  obtain p2 where p2: "record_attempt p1 40 None ''t2'' = Inr p2"
    and v2: "smoothed_score p2 = 0.75"
    using smoothed_score_update [of p1 40 None "''t2''"] f1 v1 by auto
  have f2: "best_score p2 = 90" "current_difficulty p2 = MEDIUM"
    "current_bloom_level p2 = UNDERSTAND"
    using p2 f1 record_attempt_returns [of p1 40 None "''t2''"]
    unfolding calculate_new_difficulty_cases calculate_new_bloom_level_cases
    by auto
  from p1 v1 f1 p2 v2 f2 show ?thesis by blast
qed

subsection \<open>Feedback vocabulary\<close>

lemma feedbackOptions_types:
  "map fo_type feedbackOptions =
     [''too_easy'', ''too_hard'', ''unclear'', ''more_examples'', ''different_approach'']"
  by (simp add: feedbackOptions_def)

lemma feedback_vocabulary_names:
  "map fst feedback_vocabulary =
     [''too_easy'', ''too_hard'', ''unclear'', ''more_examples'', ''different_approach'']"
  by (simp add: feedback_vocabulary_def)

lemma feedback_vocabulary_tags:
  "set (map snd feedback_vocabulary) = UNIV"
proof -
  have "tag \<in> set (map snd feedback_vocabulary)" for tag
    by (cases tag) (simp_all add: feedback_vocabulary_def)
  then show ?thesis by blast
qed

lemma accept_feedback_Inr:
  "accept_feedback req = Inr tag \<longleftrightarrow> map_of feedback_vocabulary (feedback_type req) = Some tag"
  by (simp add: accept_feedback_def split: option.splits)

lemma accept_feedback_Inl:
  "accept_feedback req = Inl e \<longleftrightarrow>
     feedback_type req \<notin> set (map fst feedback_vocabulary) \<and> e = UnrecognizedTag (feedback_type req)"
proof (cases "map_of feedback_vocabulary (feedback_type req)")
  case None
  then have "feedback_type req \<notin> set (map fst feedback_vocabulary)"
    by (simp add: map_of_eq_None_iff)
  with None show ?thesis by (auto simp: accept_feedback_def)
next
  case (Some tag)
  then have "feedback_type req \<in> set (map fst feedback_vocabulary)"
    by (metis map_of_eq_None_iff option.distinct(1) set_map)
  with Some show ?thesis by (simp add: accept_feedback_def)
qed

text \<open>
  C8. The vocabulary of feedback tags is fixed and closed. Exactly five tags are
  accepted, one for each of the five reasons (too hard, too easy, unclear, wants more
  examples, wants a different approach), and they are the five types that the feedback
  panel of the user interface offers. A submission whose tag is any other string is
  rejected with that tag reported as unrecognised: no submission with a tag outside the
  five is accepted under any reason, so no tag is defaulted to a recognised one.
\<close>

theorem feedback_vocabulary_closed:
  "map fst feedback_vocabulary =
     [''too_easy'', ''too_hard'', ''unclear'', ''more_examples'', ''different_approach''] \<and>
   distinct (map fst feedback_vocabulary) \<and> distinct (map snd feedback_vocabulary) \<and>
   set (map snd feedback_vocabulary) = UNIV \<and>
   map fo_type feedbackOptions = map fst feedback_vocabulary \<and>
   (accept_feedback req = Inr tag \<longleftrightarrow> (feedback_type req, tag) \<in> set feedback_vocabulary) \<and>
   (feedback_type req \<notin> set (map fst feedback_vocabulary) \<longrightarrow>
      accept_feedback req = Inl (UnrecognizedTag (feedback_type req))) \<and>
   (feedback_type req \<in> set (map fst feedback_vocabulary) \<longrightarrow>
      (\<exists>t. accept_feedback req = Inr t))"
proof -
  have d1: "distinct (map fst feedback_vocabulary)"
    by (simp add: feedback_vocabulary_def)
  have d2: "distinct (map snd feedback_vocabulary)"
    by (simp add: feedback_vocabulary_def)
  have acc: "accept_feedback req = Inr tag \<longleftrightarrow> (feedback_type req, tag) \<in> set feedback_vocabulary"
    unfolding accept_feedback_Inr using d1 by (metis map_of_eq_Some_iff)
  have rej: "feedback_type req \<notin> set (map fst feedback_vocabulary) \<longrightarrow>
      accept_feedback req = Inl (UnrecognizedTag (feedback_type req))"
    by (simp add: accept_feedback_Inl)
  have ok: "feedback_type req \<in> set (map fst feedback_vocabulary) \<longrightarrow>
      (\<exists>t. accept_feedback req = Inr t)"
  proof
    assume "feedback_type req \<in> set (map fst feedback_vocabulary)"
    then have "\<not> (\<exists>e. accept_feedback req = Inl e)"
      by (simp add: accept_feedback_Inl)
    then show "\<exists>t. accept_feedback req = Inr t"
      by (cases "accept_feedback req") auto
  qed
  have ui: "map fo_type feedbackOptions = map fst feedback_vocabulary"
    by (simp only: feedbackOptions_types feedback_vocabulary_names)
  from feedback_vocabulary_names d1 d2 feedback_vocabulary_tags ui acc rej ok
  show ?thesis by (intro conjI)
qed

text \<open>A submission for a lesson with the tag \<open>too_hard\<close> is accepted as "too hard"; the
  same submission with the tag \<open>too_boring\<close>, or with \<open>Too_Hard\<close>, is rejected.\<close>

theorem feedback_vocabulary_closed_witness:
  "accept_feedback \<lparr>fb_course_id = ''c1'', fb_module_id = ''m1'', fb_lesson_id = ''l1'',
       feedback_type = ''too_hard'', additional_comments = None\<rparr> = Inr TooHard \<and>
   ''too_hard'' \<in> set (map fst feedback_vocabulary) \<and>
   ''too_boring'' \<notin> set (map fst feedback_vocabulary) \<and>
   accept_feedback \<lparr>fb_course_id = ''c1'', fb_module_id = ''m1'', fb_lesson_id = ''l1'',
       feedback_type = ''too_boring'', additional_comments = Some ''dull''\<rparr> =
     Inl (UnrecognizedTag ''too_boring'') \<and>
   accept_feedback \<lparr>fb_course_id = ''c1'', fb_module_id = ''m1'', fb_lesson_id = ''l1'',
       feedback_type = ''Too_Hard'', additional_comments = None\<rparr> =
     Inl (UnrecognizedTag ''Too_Hard'')"
proof -
  let ?ok = "\<lparr>fb_course_id = ''c1'', fb_module_id = ''m1'', fb_lesson_id = ''l1'',
       feedback_type = ''too_hard'', additional_comments = None\<rparr>"
  let ?bad = "\<lparr>fb_course_id = ''c1'', fb_module_id = ''m1'', fb_lesson_id = ''l1'',
       feedback_type = ''too_boring'', additional_comments = Some ''dull''\<rparr>"
  let ?upper = "\<lparr>fb_course_id = ''c1'', fb_module_id = ''m1'', fb_lesson_id = ''l1'',
       feedback_type = ''Too_Hard'', additional_comments = None\<rparr>"
  have mem: "''too_hard'' \<in> set (map fst feedback_vocabulary)"
    by (simp add: feedback_vocabulary_def)
  have pair: "(''too_hard'', TooHard) \<in> set feedback_vocabulary"
    by (simp add: feedback_vocabulary_def)
  have out1: "''too_boring'' \<notin> set (map fst feedback_vocabulary)"
    by (simp add: feedback_vocabulary_def)
  have out2: "''Too_Hard'' \<notin> set (map fst feedback_vocabulary)"
    by (simp add: feedback_vocabulary_def)
  have "accept_feedback ?ok = Inr TooHard \<longleftrightarrow>
      (feedback_type ?ok, TooHard) \<in> set feedback_vocabulary"
    using feedback_vocabulary_closed [of ?ok TooHard] by (elim conjE)
  with pair have a: "accept_feedback ?ok = Inr TooHard" by simp
  have "feedback_type ?bad \<notin> set (map fst feedback_vocabulary) \<longrightarrow>
      accept_feedback ?bad = Inl (UnrecognizedTag (feedback_type ?bad))"
    using feedback_vocabulary_closed [of ?bad TooHard] by (elim conjE)
  with out1 have b: "accept_feedback ?bad = Inl (UnrecognizedTag ''too_boring'')" by simp
  have "feedback_type ?upper \<notin> set (map fst feedback_vocabulary) \<longrightarrow>
      accept_feedback ?upper = Inl (UnrecognizedTag (feedback_type ?upper))"
    using feedback_vocabulary_closed [of ?upper TooHard] by (elim conjE)
  with out2 have c: "accept_feedback ?upper = Inl (UnrecognizedTag ''Too_Hard'')" by simp
  from a mem out1 b c show ?thesis by (intro conjI)
qed

subsection \<open>Retry orchestrator\<close>

lemma attempt_loop_fail_step:
  assumes "attempt_value client repair validate prompt a = None"
  shows "\<exists>l. attempt_loop client repair validate prompt (Suc n) a lr calls =
           attempt_loop client repair validate prompt n (Suc a) l (calls @ [a])"
  using assms by (auto simp: attempt_value_def split: sum.splits option.splits)

lemma attempt_loop_success_step:
  assumes "attempt_value client repair validate prompt a = Some v"
  shows "attempt_loop client repair validate prompt (Suc n) a lr calls = (Validated v, calls @ [a])"
  using assms by (auto simp: attempt_value_def split: sum.splits option.splits)

lemma attempt_loop_exhausted:
  assumes "\<forall>k. a \<le> k \<and> k < a + n \<longrightarrow> attempt_value client repair validate prompt k = None"
  shows "\<exists>raw. attempt_loop client repair validate prompt n a lr calls =
           (GenerationExhausted raw, calls @ [a ..< a + n])"
  using assms
proof (induction n arbitrary: a lr calls)
  case 0
  then show ?case by simp
next
  case (Suc n)
  have here: "attempt_value client repair validate prompt a = None"
    using Suc.prems by simp
  have later: "\<forall>k. Suc a \<le> k \<and> k < Suc a + n \<longrightarrow>
      attempt_value client repair validate prompt k = None"
    using Suc.prems by simp
  obtain l where step: "attempt_loop client repair validate prompt (Suc n) a lr calls =
      attempt_loop client repair validate prompt n (Suc a) l (calls @ [a])"
    using attempt_loop_fail_step [OF here] by blast
  obtain raw where rest: "attempt_loop client repair validate prompt n (Suc a) l (calls @ [a]) =
      (GenerationExhausted raw, (calls @ [a]) @ [Suc a ..< Suc a + n])"
    using Suc.IH [OF later] by blast
  have "(calls @ [a]) @ [Suc a ..< Suc a + n] = calls @ [a ..< a + Suc n]"
    by (simp add: upt_conv_Cons)
  with step rest show ?case by metis
qed

lemma attempt_loop_first_success:
  assumes "attempt_value client repair validate prompt (a + i) = Some v"
    and "\<forall>k. a \<le> k \<and> k < a + i \<longrightarrow> attempt_value client repair validate prompt k = None"
    and "i < n"
  shows "attempt_loop client repair validate prompt n a lr calls =
           (Validated v, calls @ [a ..< Suc (a + i)])"
  using assms
proof (induction i arbitrary: a n lr calls)
  case 0
  then obtain m where n: "n = Suc m" by (cases n) auto
  have "attempt_value client repair validate prompt a = Some v" using 0 by simp
  from attempt_loop_success_step [OF this] show ?case unfolding n by simp
next
  case (Suc i)
  then obtain m where n: "n = Suc m" and im: "i < m" by (cases n) auto
  have here: "attempt_value client repair validate prompt a = None"
    using Suc.prems by simp
  have hit: "attempt_value client repair validate prompt (Suc a + i) = Some v"
    using Suc.prems by simp
  have before: "\<forall>k. Suc a \<le> k \<and> k < Suc a + i \<longrightarrow>
      attempt_value client repair validate prompt k = None"
    using Suc.prems by simp
  obtain l where step: "attempt_loop client repair validate prompt (Suc m) a lr calls =
      attempt_loop client repair validate prompt m (Suc a) l (calls @ [a])"
    using attempt_loop_fail_step [OF here] by blast
  have rest: "attempt_loop client repair validate prompt m (Suc a) l (calls @ [a]) =
      (Validated v, (calls @ [a]) @ [Suc a ..< Suc (Suc a + i)])"
    by (rule Suc.IH [OF hit before im])
  have "(calls @ [a]) @ [Suc a ..< Suc (Suc a + i)] = calls @ [a ..< Suc (a + Suc i)]"
    by (simp add: upt_conv_Cons)
  with step rest show ?case unfolding n by metis
qed

lemma attempt_loop_calls:
  "\<exists>m \<le> n. snd (attempt_loop client repair validate prompt n a lr calls) = calls @ [a ..< a + m]"
proof (induction n arbitrary: a lr calls)
  case 0
  then show ?case by simp
next
  case (Suc n)
  show ?case
  proof (cases "attempt_value client repair validate prompt a")
    case None
    obtain l where step: "attempt_loop client repair validate prompt (Suc n) a lr calls =
        attempt_loop client repair validate prompt n (Suc a) l (calls @ [a])"
      using attempt_loop_fail_step [OF None] by blast
    obtain m where m: "m \<le> n"
      and s: "snd (attempt_loop client repair validate prompt n (Suc a) l (calls @ [a])) =
        (calls @ [a]) @ [Suc a ..< Suc a + m]"
      using Suc.IH [of "Suc a" l "calls @ [a]"] by blast
    have "(calls @ [a]) @ [Suc a ..< Suc a + m] = calls @ [a ..< a + Suc m]"
      by (simp add: upt_conv_Cons)
    with m s step show ?thesis by (intro exI [of _ "Suc m"]) simp
  next
    case (Some v)
    from attempt_loop_success_step [OF Some] show ?thesis
      by (intro exI [of _ 1]) simp
  qed
qed

text \<open>
  C5. A run of the pipeline issues the generator calls \<open>1, 2, ..., n\<close> in this order and
  nothing else, with \<open>n \<le> maxAttempts\<close>. If attempt \<open>k \<le> maxAttempts\<close> is the first whose
  response passes repair and validation, the run returns that attempt's validated value
  and has issued exactly \<open>k\<close> calls: none after the success, and each failed attempt is
  followed directly by the next call. If no attempt passes, the run returns the
  exhaustion failure after exactly \<open>maxAttempts\<close> calls.
\<close>

theorem generateValidated_bounded_retries:
  "(\<exists>n \<le> maxAttempts. snd (generateValidated client repair validate prompt maxAttempts) = [1 ..< n + 1]) \<and>
   (\<forall>k v. 1 \<le> k \<and> k \<le> maxAttempts \<and>
        attempt_value client repair validate prompt k = Some v \<and>
        (\<forall>j. 1 \<le> j \<and> j < k \<longrightarrow> attempt_value client repair validate prompt j = None)
      \<longrightarrow> generateValidated client repair validate prompt maxAttempts = (Validated v, [1 ..< k + 1])) \<and>
   ((\<forall>j. 1 \<le> j \<and> j \<le> maxAttempts \<longrightarrow> attempt_value client repair validate prompt j = None)
      \<longrightarrow> (\<exists>raw. generateValidated client repair validate prompt maxAttempts =
            (GenerationExhausted raw, [1 ..< maxAttempts + 1])))"
proof (intro conjI allI impI)
  show "\<exists>n \<le> maxAttempts.
      snd (generateValidated client repair validate prompt maxAttempts) = [1 ..< n + 1]"
    using attempt_loop_calls [of maxAttempts client repair validate prompt 1 None "[]"]
    by (simp add: generateValidated_def)
next
  fix k v
  assume h: "1 \<le> k \<and> k \<le> maxAttempts \<and>
        attempt_value client repair validate prompt k = Some v \<and>
        (\<forall>j. 1 \<le> j \<and> j < k \<longrightarrow> attempt_value client repair validate prompt j = None)"
  then obtain i where k: "k = 1 + i" and i: "i < maxAttempts"
    by (cases k) auto
  have "attempt_loop client repair validate prompt maxAttempts 1 None [] =
      (Validated v, [] @ [1 ..< Suc (1 + i)])"
    using h i unfolding k by (intro attempt_loop_first_success) auto
  then show "generateValidated client repair validate prompt maxAttempts =
      (Validated v, [1 ..< k + 1])"
    by (simp add: generateValidated_def k)
next
  assume "\<forall>j. 1 \<le> j \<and> j \<le> maxAttempts \<longrightarrow>
      attempt_value client repair validate prompt j = None"
  then have "\<forall>k. 1 \<le> k \<and> k < 1 + maxAttempts \<longrightarrow>
      attempt_value client repair validate prompt k = None"
    by simp
  from attempt_loop_exhausted [OF this, of None "[]"]
  show "\<exists>raw. generateValidated client repair validate prompt maxAttempts =
      (GenerationExhausted raw, [1 ..< maxAttempts + 1])"
    by (simp add: generateValidated_def)
qed

text \<open>Three attempts: a timeout, a response that cannot be repaired, a valid response;
  and a generator whose first response is valid.\<close>

theorem generateValidated_bounded_retries_witness:
  "generateValidated
     (\<lambda>k p. if k = 1 then Inl Timeout else if k = 2 then Inr ''no json'' else Inr ''[1]'')
     (\<lambda>s. if s = ''[1]'' then Some s else None) (\<lambda>j. Inr j :: unit + string) ''quiz'' MAX_RETRIES =
     (Validated ''[1]'', [1, 2, 3]) \<and>
   generateValidated (\<lambda>k p. Inr ''[1]'')
     (\<lambda>s. if s = ''[1]'' then Some s else None) (\<lambda>j. Inr j :: unit + string) ''quiz'' MAX_RETRIES =
     (Validated ''[1]'', [1])"
proof -
  let ?client = "\<lambda>(k::nat) (p::string). if k = 1 then Inl Timeout
      else if k = 2 then Inr ''no json'' else Inr ''[1]''"
  let ?repair = "\<lambda>s::string. if s = ''[1]'' then Some s else None"
  let ?validate = "\<lambda>j::string. Inr j :: unit + string"
  have v: "attempt_value ?client ?repair ?validate ''quiz'' 1 = None"
    "attempt_value ?client ?repair ?validate ''quiz'' 2 = None"
    "attempt_value ?client ?repair ?validate ''quiz'' 3 = Some ''[1]''"
    by (simp_all add: attempt_value_def)
  have before: "\<forall>j. 1 \<le> j \<and> j < 3 \<longrightarrow> attempt_value ?client ?repair ?validate ''quiz'' j = None"
  proof (intro allI impI)
    fix j :: nat
    assume "1 \<le> j \<and> j < 3"
    then have "j = 1 \<or> j = 2" by auto
    with v show "attempt_value ?client ?repair ?validate ''quiz'' j = None" by auto
  qed
  have upt3: "[1 ..< 3 + 1] = [1, 2, 3::nat]" by (simp add: upt_rec)
  have "generateValidated ?client ?repair ?validate ''quiz'' 3 = (Validated ''[1]'', [1 ..< 3 + 1])"
    by (rule generateValidated_bounded_retries
          [of 3 ?client ?repair ?validate "''quiz''", THEN conjunct2, THEN conjunct1, rule_format])
       (use v before in simp)
  then have a: "generateValidated ?client ?repair ?validate ''quiz'' MAX_RETRIES =
      (Validated ''[1]'', [1, 2, 3])"
    unfolding MAX_RETRIES_def upt3 .
  have v1: "attempt_value (\<lambda>k p. Inr ''[1]'') ?repair ?validate ''quiz'' 1 = Some ''[1]''"
    by (simp add: attempt_value_def)
  have upt1: "[1 ..< 1 + 1] = [1::nat]" by simp
  have "generateValidated (\<lambda>k p. Inr ''[1]'') ?repair ?validate ''quiz'' 3 =
      (Validated ''[1]'', [1 ..< 1 + 1])"
    by (rule generateValidated_bounded_retries
          [of 3 "\<lambda>k p. Inr ''[1]''" ?repair ?validate "''quiz''", THEN conjunct2, THEN conjunct1,
           rule_format])
       (use v1 in simp)
  then have b: "generateValidated (\<lambda>k p. Inr ''[1]'') ?repair ?validate ''quiz'' MAX_RETRIES =
      (Validated ''[1]'', [1])"
    unfolding MAX_RETRIES_def upt1 .
  from a b show ?thesis by simp
qed

subsection \<open>Schema Validator\<close>

lemma get_string_JStr:
  "obj_get q k = Some (JStr s) \<Longrightarrow> get_string q k = Inr s"
  by (simp add: get_string_def)

lemma json_strings_mem:
  "json_strings xs = Some os \<Longrightarrow> c \<in> set os \<Longrightarrow> JStr c \<in> set xs"
proof (induction xs arbitrary: os rule: json_strings.induct)
  case 1
  then show ?case by simp
next
  case (2 s xs)
  then show ?case by auto
qed simp_all

text \<open>
  C7. A candidate question whose \<open>correct_answer\<close> is a string that is not among the
  entries of its \<open>options\<close> array is never accepted, whatever its other fields are: the
  validator returns a failure, and no question (corrected or not) comes out.
\<close>

theorem validate_question_rejects_foreign_answer:
  assumes "obj_get q ''correct_answer'' = Some (JStr c)"
    and "obj_get q ''options'' = Some (JArr os)"
    and "JStr c \<notin> set os"
  shows "\<exists>e. validate_question q = Inl e"
proof -
  obtain ms where q: "q = JObj ms" using assms(1) by (cases q) simp_all
  have correct: "get_string q ''correct_answer'' = Inr c"
    by (rule get_string_JStr [OF assms(1)])
  have opts: "get_options q = Inl (WrongType ''options'') \<or>
      (\<exists>xs. get_options q = Inr xs \<and> c \<notin> set xs)"
  proof (cases "json_strings os")
    case None
    with assms(2) show ?thesis by (simp add: get_options_def)
  next
    case (Some xs)
    with assms(3) json_strings_mem have "c \<notin> set xs" by blast
    with Some assms(2) show ?thesis by (simp add: get_options_def)
  qed
  have chk: "c \<in> set xs" if "check_options xs c = Inr ()" for xs
    using that by (simp add: check_options_def split: if_splits)
  have accepted: "\<exists>xs. get_options q = Inr xs \<and> check_options xs c = Inr ()"
    if "validate_question q = Inr qq" for qq
    using that correct unfolding q validate_question_def and_then_def
    by (auto split: sum.splits)
  show ?thesis
  proof (cases "validate_question q")
    case (Inl e)
    then show ?thesis by blast
  next
    case (Inr qq)
    from accepted [OF this] obtain xs where "get_options q = Inr xs" "check_options xs c = Inr ()"
      by blast
    with opts chk show ?thesis by auto
  qed
qed

text \<open>The question of the scenario is accepted as it stands, and rejected with
  \<open>correct_answer\<close> changed to a string outside its options, all other fields
  unchanged.\<close>

theorem validate_question_rejects_foreign_answer_witness:
  "validate_question
     (JObj [(''question_id'', JStr ''q1''), (''question'', JStr ''2+2?''),
            (''options'', JArr [JStr ''3'', JStr ''4'', JStr ''5'', JStr ''6'']),
            (''correct_answer'', JStr ''7''), (''difficulty'', JStr ''easy''),
            (''bloom_level'', JStr ''Remember''),
            (''explanation'', JStr ''Basic arithmetic'')]) = Inl CorrectNotInOptions \<and>
   validate_question
     (JObj [(''question_id'', JStr ''q1''), (''question'', JStr ''2+2?''),
            (''options'', JArr [JStr ''3'', JStr ''4'', JStr ''5'', JStr ''6'']),
            (''correct_answer'', JStr ''4''), (''difficulty'', JStr ''easy''),
            (''bloom_level'', JStr ''Remember''),
            (''explanation'', JStr ''Basic arithmetic'')]) = Inr scenario_question"
proof -
  let ?bad = "JObj [(''question_id'', JStr ''q1''), (''question'', JStr ''2+2?''),
            (''options'', JArr [JStr ''3'', JStr ''4'', JStr ''5'', JStr ''6'']),
            (''correct_answer'', JStr ''7''), (''difficulty'', JStr ''easy''),
            (''bloom_level'', JStr ''Remember''),
            (''explanation'', JStr ''Basic arithmetic'')]"
  have "\<exists>e. validate_question ?bad = Inl e"
    by (rule validate_question_rejects_foreign_answer
          [of _ "''7''" "[JStr ''3'', JStr ''4'', JStr ''5'', JStr ''6'']"]) simp_all
  moreover have "validate_question ?bad = Inl CorrectNotInOptions"
    by code_simp
  moreover have "validate_question
     (JObj [(''question_id'', JStr ''q1''), (''question'', JStr ''2+2?''),
            (''options'', JArr [JStr ''3'', JStr ''4'', JStr ''5'', JStr ''6'']),
            (''correct_answer'', JStr ''4''), (''difficulty'', JStr ''easy''),
            (''bloom_level'', JStr ''Remember''),
            (''explanation'', JStr ''Basic arithmetic'')]) = Inr scenario_question"
    by code_simp
  ultimately show ?thesis by simp
qed

end
